theory Spec2Isabelle
  imports Main
begin

section \<open>Cell selection of the decision table (CellSelection.js)\<close>

text \<open>
  The controller keeps one variable, \<open>lastSelection\<close>, and talks to three collaborators:
  the event bus (\<open>eventBus.fire\<close>), the selection service (\<open>selection.select\<close>,
  \<open>selection.deselect\<close>) and the DOM below its container. Every call on a
  collaborator is recorded, in order, in a trace of effects; each handler of the source is
  a function from the controller state to the new state and the trace of that call.
  What the bus and the browser do with a call (which listeners they run in turn) is their
  own code and is not part of a handler's trace.
\<close>

subsection \<open>Identifiers, patches and effects\<close>

text \<open>
  The values an element identifier takes in the source: \<open>null\<close> (the initial
  \<open>lastSelection\<close>, a click outside every element), \<open>undefined\<close> (a selected
  object without \<open>id\<close>) and strings (what \<open>getAttribute\<close> returns).
\<close>

datatype elemId = Null | Undefined | Str string

text \<open>JavaScript truthiness: \<open>null\<close>, \<open>undefined\<close> and the empty string are falsy.\<close>

fun truthy :: "elemId \<Rightarrow> bool" where
  "truthy Null = False"
| "truthy Undefined = False"
| "truthy (Str s) = (s \<noteq> [])"

text \<open>String conversion, as \<open>+\<close> and template literals apply it.\<close>

fun toStr :: "elemId \<Rightarrow> string" where
  "toStr Null = ''null''"
| "toStr Undefined = ''undefined''"
| "toStr (Str s) = s"

text \<open>A patch \<open>{selected?: bool, focussed?: bool}\<close>; \<open>None\<close> is an absent key.\<close>

record patch =
  selected :: "bool option"
  focussed :: "bool option"

datatype payload =
    Patch patch
  | CellChanged elemId patch  \<comment> \<open>\<open>{elementId: .., selection: ..}\<close>\<close>

datatype effect =
    Fire string payload  \<comment> \<open>\<open>eventBus.fire(name, payload)\<close>\<close>
  | Select elemId         \<comment> \<open>\<open>selection.select(elementId)\<close>\<close>
  | Deselect             \<comment> \<open>\<open>selection.deselect()\<close>\<close>

definition deselectPatch :: patch where
  "deselectPatch = \<lparr>selected = Some False, focussed = Some False\<rparr>"

definition selectPatch :: patch where
  "selectPatch = \<lparr>selected = Some True, focussed = Some True\<rparr>"

definition unfocusPatch :: patch where
  "unfocusPatch = \<lparr>selected = None, focussed = Some False\<rparr>"

subsection \<open>The DOM below the container\<close>

text \<open>
  An element is its attributes and its classes. The selectors the source uses are
  \<open>.no-deselect\<close>, \<open>[data-element-id]\<close> and \<open>[attr="value"]\<close>. A query root is
  given by the list of its descendants in document order, and a query returns the first
  match, as \<open>querySelector\<close> does. Strings are ASCII. The value the source splices into
  \<open>[attr="value"]\<close> is compared as it is, which is what the selector means when the
  value has no double quote, backslash or line break (\<open>plain\<close>); the theorems that
  depend on a query for an arbitrary value are stated for plain values.
\<close>

record element =
  attrs :: "(string \<times> string) list"
  classes :: "string list"

datatype selector =
    HasClass string
  | HasAttr string
  | AttrEq string string

definition getAttribute :: "element \<Rightarrow> string \<Rightarrow> string option" where
  "getAttribute el name = map_of (attrs el) name"

fun matches :: "element \<Rightarrow> selector \<Rightarrow> bool" where
  "matches el (HasClass c) = (c \<in> set (classes el))"
| "matches el (HasAttr a) = (getAttribute el a \<noteq> None)"
| "matches el (AttrEq a v) = (getAttribute el a = Some v)"

record dom =
  document :: "element list"   \<comment> \<open>the elements of the document, in document order\<close>
  container :: "element list"  \<comment> \<open>the descendants of \<open>config.container\<close>, in document order\<close>

text \<open>
  \<open>query(selector, el)\<close> of min-dom is \<open>(el || document).querySelector(selector)\<close>:
  without a root it searches the whole document.
\<close>

definition query :: "dom \<Rightarrow> selector \<Rightarrow> element list option \<Rightarrow> element option" where
  "query d sel el =
     find (\<lambda>e. matches e sel) (case el of None \<Rightarrow> document d | Some root \<Rightarrow> root)"

text \<open>
  \<open>closest(target, selector, true)\<close>: the first match on the path from the target up to
  the root, the target included. A DOM event is given by that path.
\<close>

definition closest :: "element list \<Rightarrow> selector \<Rightarrow> element option" where
  "closest path sel = find (\<lambda>el. matches el sel) path"

definition plain :: "string \<Rightarrow> bool" where
  "plain v = list_all (\<lambda>c. c \<notin> {CHR 0x22, CHR 0x5C, CHR 0x0A, CHR 0x0C, CHR 0x0D}) v"

definition ELEMENT_SELECTOR :: selector where
  "ELEMENT_SELECTOR = HasAttr ''data-element-id''"

subsection \<open>Strings and numbers of the coordinate attribute\<close>

text \<open>\<open>s.split(c)\<close> for a one-character separator; the result is never empty.\<close>

fun split :: "char \<Rightarrow> string \<Rightarrow> string list" where
  "split c [] = [[]]"
| "split c (x # xs) =
     (if x = c then [] # split c xs
      else (case split c xs of [] \<Rightarrow> [[x]] | w # ws \<Rightarrow> (x # w) # ws))"

text \<open>
  Numbers are \<open>NaN\<close> or integers. JavaScript numbers are doubles, which are exact for
  integers of magnitude up to \<open>2^53\<close>; the theorems about row arithmetic are stated
  below that bound.
\<close>

datatype jsnum = NaN | Num int

fun addNum :: "jsnum \<Rightarrow> int \<Rightarrow> jsnum" where
  "addNum NaN k = NaN"
| "addNum (Num i) k = Num (i + k)"

definition isWhiteSpace :: "char \<Rightarrow> bool" where
  "isWhiteSpace c = (c \<in> {CHR 0x20, CHR 0x09, CHR 0x0A, CHR 0x0B, CHR 0x0C, CHR 0x0D})"

definition isDigit :: "char \<Rightarrow> bool" where
  "isDigit c = (c \<in> set ''0123456789'')"

definition digitValue :: "char \<Rightarrow> nat" where
  "digitValue c = of_char c - 48"

definition digitsValue :: "string \<Rightarrow> nat" where
  "digitsValue ds = foldl (\<lambda>a c. 10 * a + digitValue c) 0 ds"

text \<open>
  \<open>parseInt(x, 10)\<close>: the argument is converted to a string (\<open>undefined\<close> gives
  \<open>"undefined"\<close>), leading white space is skipped, one sign is read, then the longest
  run of decimal digits; without a digit the result is \<open>NaN\<close>.
\<close>

definition parseInt :: "string option \<Rightarrow> jsnum" where
  "parseInt x =
     (let s = dropWhile isWhiteSpace (case x of None \<Rightarrow> ''undefined'' | Some v \<Rightarrow> v);
          neg = (case s of [] \<Rightarrow> False | c # _ \<Rightarrow> c = CHR ''-'');
          r = (case s of [] \<Rightarrow> [] | c # cs \<Rightarrow> if c = CHR ''-'' \<or> c = CHR ''+'' then cs else s);
          ds = takeWhile isDigit r
      in if ds = [] then NaN
         else Num (if neg then - int (digitsValue ds) else int (digitsValue ds)))"

fun digits :: "nat \<Rightarrow> string" where
  "digits n = (if n < 10 then [''0123456789'' ! n] else digits (n div 10) @ [''0123456789'' ! (n mod 10)])"

text \<open>Number to string, as a template literal converts it.\<close>

fun numToString :: "jsnum \<Rightarrow> string" where
  "numToString NaN = ''NaN''"
| "numToString (Num i) = (if i < 0 then CHR ''-'' # digits (nat (- i)) else digits (nat i))"

subsection \<open>Helpers of the source\<close>

datatype error =
    Error string   \<comment> \<open>\<open>throw new Error(message)\<close>\<close>
  | TypeError      \<comment> \<open>a property read on \<open>null\<close>\<close>

record coords =
  row :: "string option"  \<comment> \<open>\<open>None\<close> is \<open>undefined\<close>\<close>
  col :: "string option"

fun nthOpt :: "'a list \<Rightarrow> nat \<Rightarrow> 'a option" where
  "nthOpt [] n = None"
| "nthOpt (x # xs) 0 = Some x"
| "nthOpt (x # xs) (Suc n) = nthOpt xs n"

text \<open>\<open>getCoordinates(el)\<close>; \<open>el\<close> may be \<open>null\<close>, and \<open>el.getAttribute\<close> then throws.\<close>

definition getCoordinates :: "element option \<Rightarrow> error + coords option" where
  "getCoordinates el =
     (case el of
        None \<Rightarrow> Inl TypeError
      | Some e \<Rightarrow>
          (case getAttribute e ''data-coords'' of
             None \<Rightarrow> Inr None
           | Some coordsAttr \<Rightarrow>
               if coordsAttr = [] then Inr None
               else let parts = split CHR '':'' coordsAttr
                    in Inr (Some \<lparr>row = nthOpt parts 0, col = nthOpt parts 1\<rparr>)))"

definition getElementId :: "element \<Rightarrow> elemId" where
  "getElementId el =
     (case getAttribute el ''data-element-id'' of None \<Rightarrow> Null | Some v \<Rightarrow> Str v)"

definition getElementByCoords ::
  "dom \<Rightarrow> jsnum \<Rightarrow> string option \<Rightarrow> element list option \<Rightarrow> element option" where
  "getElementByCoords d coordsRow coordsCol el =
     (let coordsAttr = numToString coordsRow @ '':'' @
                       (case coordsCol of None \<Rightarrow> ''undefined'' | Some c \<Rightarrow> c)
      in query d (AttrEq ''data-coords'' coordsAttr) el)"

definition getElement :: "dom \<Rightarrow> elemId \<Rightarrow> element list option \<Rightarrow> element option" where
  "getElement d ident el = query d (AttrEq ''data-element-id'' (toStr ident)) el"

subsection \<open>Controller state\<close>

text \<open>
  \<open>lastSelection\<close> is the closure variable of the source. \<open>bindings\<close> is the listener
  table of the container. The handlers \<open>click\<close> reads \<open>event.target\<close>; \<open>focus\<close> and
  \<open>unfocus\<close> read \<open>event.delegateTarget\<close>.
\<close>

datatype targetHandler = HClick
datatype delegateHandler = HFocus | HUnfocus

datatype listener =
    Bound string targetHandler                 \<comment> \<open>\<open>event.bind(container, type, fn)\<close>\<close>
  | Delegated selector string delegateHandler  \<comment> \<open>\<open>delegate.bind(container, selector, type, fn)\<close>\<close>

record cellSelection =
  lastSelection :: elemId
  bindings :: "listener list"

text \<open>
  \<open>event\<close> and \<open>delegate\<close> of min-dom are not in the source; they are modelled after
  the library. \<open>event.bind(el, type, fn)\<close> is \<open>addEventListener\<close>, and
  \<open>event.unbind(el, type, fn)\<close> is \<open>removeEventListener\<close>, which removes the listener
  registered under that type with that very function and raises a TypeError when \<open>fn\<close> is
  not an object. \<open>delegate.bind(el, selector, type, fn)\<close> registers a wrapper of \<open>fn\<close>
  under \<open>type\<close>, a new function that only the return value of the call names.
  \<open>delegate.unbind(el, type, fn, capture)\<close> is \<open>event.unbind(el, type, fn, capture)\<close>: it
  has no selector parameter. A listener \<open>Delegated\<close> is such a wrapper.
\<close>

text \<open>The values the source passes to the unbind functions: a string or one of its handlers.\<close>

datatype jsvalue =
    VString string
  | VTarget targetHandler
  | VDelegate delegateHandler

text \<open>The text of a selector, which is what the source holds in \<open>ELEMENT_SELECTOR\<close>.\<close>

fun selectorText :: "selector \<Rightarrow> string" where
  "selectorText (HasClass c) = ''.'' @ c"
| "selectorText (HasAttr a) = ''['' @ a @ '']''"
| "selectorText (AttrEq a v) = ''['' @ a @ ''='' @ [CHR 0x22] @ v @ [CHR 0x22] @ '']''"

definition event_bind :: "string \<Rightarrow> targetHandler \<Rightarrow> listener list \<Rightarrow> listener list" where
  "event_bind type fn tbl = tbl @ [Bound type fn]"

definition delegate_bind ::
  "selector \<Rightarrow> string \<Rightarrow> delegateHandler \<Rightarrow> listener list \<Rightarrow> listener list" where
  "delegate_bind sel type fn tbl = tbl @ [Delegated sel type fn]"

text \<open>
  A handler that was bound through \<open>delegate.bind\<close> is not itself a listener of the
  container, its wrapper is: unbinding the handler removes nothing.
\<close>

definition event_unbind :: "string \<Rightarrow> jsvalue \<Rightarrow> listener list \<Rightarrow> error + listener list" where
  "event_unbind type fn tbl =
     (case fn of
        VString v \<Rightarrow> Inl TypeError
      | VTarget h \<Rightarrow> Inr (filter (\<lambda>l. l \<noteq> Bound type h) tbl)
      | VDelegate h \<Rightarrow> Inr tbl)"

definition delegate_unbind ::
  "string \<Rightarrow> jsvalue \<Rightarrow> jsvalue \<Rightarrow> listener list \<Rightarrow> error + listener list" where
  "delegate_unbind type fn capture tbl = event_unbind type fn tbl"

subsection \<open>emit, realSelect and the handlers\<close>

definition emit :: "elemId \<Rightarrow> patch \<Rightarrow> effect list" where
  "emit elementId newSelection =
     [Fire (''selection.'' @ toStr elementId @ ''.changed'') (Patch newSelection),
      Fire ''cellSelection.changed'' (CellChanged elementId newSelection)]"

definition realSelect :: "elemId \<Rightarrow> cellSelection \<Rightarrow> cellSelection \<times> effect list" where
  "realSelect elementId s =
     (let t1 = (if lastSelection s \<noteq> elementId then emit (lastSelection s) deselectPatch else []);
          s' = s\<lparr>lastSelection := elementId\<rparr>;
          t2 = (if truthy elementId then emit elementId selectPatch else []);
          t3 = (if truthy elementId then [Select elementId] else [Deselect])
      in (s', t1 @ t2 @ t3))"

text \<open>\<open>click(event)\<close>; the argument is the path of \<open>event.target\<close>.\<close>

definition click :: "element list \<Rightarrow> cellSelection \<Rightarrow> cellSelection \<times> effect list" where
  "click target s =
     (if closest target (HasClass ''no-deselect'') \<noteq> None then (s, [])
      else let selectionTarget = closest target ELEMENT_SELECTOR;
               elementId = (case selectionTarget of None \<Rightarrow> Null | Some el \<Rightarrow> getElementId el)
           in realSelect elementId s)"

text \<open>\<open>focus(event)\<close> and \<open>unfocus(event)\<close>; the argument is \<open>event.delegateTarget\<close>.\<close>

definition focus :: "element \<Rightarrow> cellSelection \<Rightarrow> cellSelection \<times> effect list" where
  "focus delegateTarget s = realSelect (getElementId delegateTarget) s"

definition unfocus :: "element \<Rightarrow> cellSelection \<Rightarrow> cellSelection \<times> effect list" where
  "unfocus delegateTarget s = (s, emit (getElementId delegateTarget) unfocusPatch)"

text \<open>The constructor: \<open>lastSelection = null\<close> and the three bindings of lines 104 to 106.\<close>

definition CellSelection :: cellSelection where
  "CellSelection =
     \<lparr>lastSelection = Null,
      bindings = delegate_bind ELEMENT_SELECTOR ''focusout'' HUnfocus
                   (delegate_bind ELEMENT_SELECTOR ''focusin'' HFocus
                     (event_bind ''click'' HClick []))\<rparr>"

text \<open>
  The listener of \<open>table.destroy\<close>: three statements, each of which may throw, with the
  bindings as the statements before it left them. The source passes
  \<open>(container, ELEMENT_SELECTOR, 'focusin', focus)\<close> to \<open>delegate.unbind\<close>, whose
  parameters are \<open>(el, type, fn, capture)\<close>.
\<close>

definition onTableDestroy :: "cellSelection \<Rightarrow> cellSelection \<times> error option" where
  "onTableDestroy s =
     (case event_unbind ''click'' (VTarget HClick) (bindings s) of
        Inl e \<Rightarrow> (s, Some e)
      | Inr b1 \<Rightarrow>
          (case delegate_unbind (selectorText ELEMENT_SELECTOR) (VString ''focusin'')
                  (VDelegate HFocus) b1 of
             Inl e \<Rightarrow> (s\<lparr>bindings := b1\<rparr>, Some e)
           | Inr b2 \<Rightarrow>
               (case delegate_unbind (selectorText ELEMENT_SELECTOR) (VString ''focusout'')
                       (VDelegate HUnfocus) b2 of
                  Inl e \<Rightarrow> (s\<lparr>bindings := b2\<rparr>, Some e)
                | Inr b3 \<Rightarrow> (s\<lparr>bindings := b3\<rparr>, None))))"

text \<open>
  The listener of \<open>selection.changed\<close>. The argument is \<open>event.selection\<close>: \<open>None\<close> when
  it is falsy, otherwise its \<open>id\<close>.
\<close>

definition onSelectionChanged ::
  "elemId option \<Rightarrow> cellSelection \<Rightarrow> cellSelection \<times> effect list" where
  "onSelectionChanged sel s = (case sel of None \<Rightarrow> (s, []) | Some i \<Rightarrow> realSelect i s)"

text \<open>
  Modelled from the spec: the delivery of a DOM event of a kind, with the path of its
  target, to the listeners bound on the container, in the order of binding. A delegated
  listener runs when an element on the path matches its selector, which becomes
  \<open>event.delegateTarget\<close>.
\<close>

fun deliver ::
  "listener \<Rightarrow> string \<Rightarrow> element list \<Rightarrow> cellSelection \<Rightarrow> cellSelection \<times> effect list" where
  "deliver (Bound t HClick) type path s = (if t = type then click path s else (s, []))"
| "deliver (Delegated sel t h) type path s =
     (if t = type then
        (case closest path sel of
           None \<Rightarrow> (s, [])
         | Some el \<Rightarrow> (case h of HFocus \<Rightarrow> focus el s | HUnfocus \<Rightarrow> unfocus el s))
      else (s, []))"

fun deliverAll ::
  "listener list \<Rightarrow> string \<Rightarrow> element list \<Rightarrow> cellSelection \<Rightarrow> cellSelection \<times> effect list" where
  "deliverAll [] type path s = (s, [])"
| "deliverAll (l # ls) type path s =
     (let (s1, t1) = deliver l type path s;
          (s2, t2) = deliverAll ls type path s1
      in (s2, t1 @ t2))"

definition dispatch ::
  "string \<Rightarrow> element list \<Rightarrow> cellSelection \<Rightarrow> cellSelection \<times> effect list" where
  "dispatch type path s = deliverAll (bindings s) type path s"

subsection \<open>The public API\<close>

definition isCellSelected :: "cellSelection \<Rightarrow> bool" where
  "isCellSelected s = truthy (lastSelection s)"

definition selectCell ::
  "string \<Rightarrow> dom \<Rightarrow> cellSelection \<Rightarrow> error + (cellSelection \<times> effect list)" where
  "selectCell direction d s =
     (if \<not> truthy (lastSelection s) then Inr (s, [])
      else if direction \<noteq> ''above'' \<and> direction \<noteq> ''below''
      then Inl (Error ''direction must be any of { above, below }'')
      else
        let selectionEl = getElement d (lastSelection s) None
        in case getCoordinates selectionEl of
             Inl e \<Rightarrow> Inl e
           | Inr None \<Rightarrow> Inr (s, [])
           | Inr (Some coords) \<Rightarrow>
               let rowIndex = parseInt (row coords);
                   nextRowIndex = (if direction = ''above'' then addNum rowIndex (- 1)
                                   else addNum rowIndex 1);
                   nextEl = getElementByCoords d nextRowIndex (col coords) (Some (container d))
               in case nextEl of
                    None \<Rightarrow> Inr (s, [])
                  | Some el \<Rightarrow>
                      let nextElId = getElementId el
                      in if truthy nextElId then Inr (realSelect nextElId s) else Inr (s, []))"

subsection \<open>Sequences of calls, and what the listeners of the bus have been told\<close>

text \<open>
  The ways into the controller: a DOM event on the container, the bus events
  \<open>selection.changed\<close> and \<open>table.destroy\<close>, and the API call \<open>selectCell\<close>. A call of
  \<open>selectCell\<close> that throws has fired nothing and changed nothing before the throw;
  the listener of \<open>table.destroy\<close> leaves the bindings as they were when it threw.
  The listener of \<open>cellSelection.changed\<close> (\<open>ensureFocus\<close>) moves the input focus in
  the DOM; it neither reads nor writes \<open>lastSelection\<close> and fires nothing on the bus, and
  it is left out. The focus events the browser sends in answer are DOM events of their own.
\<close>

datatype call =
    DomEvent string "element list"
  | SelectionChanged "elemId option"
  | TableDestroy
  | SelectCell string dom

fun step :: "call \<Rightarrow> cellSelection \<Rightarrow> cellSelection \<times> effect list" where
  "step (DomEvent type path) s = dispatch type path s"
| "step (SelectionChanged sel) s = onSelectionChanged sel s"
| "step TableDestroy s = (fst (onTableDestroy s), [])"
| "step (SelectCell direction d) s =
     (case selectCell direction d s of Inl e \<Rightarrow> (s, []) | Inr r \<Rightarrow> r)"

fun run :: "call list \<Rightarrow> cellSelection \<Rightarrow> cellSelection \<times> effect list" where
  "run [] s = (s, [])"
| "run (c # cs) s =
     (let (s1, t1) = step c s;
          (s2, t2) = run cs s1
      in (s2, t1 @ t2))"

text \<open>
  The identifiers marked \<open>selected: true\<close> and \<open>focussed: true\<close>, as a listener of
  \<open>cellSelection.changed\<close> that applies each patch to its element sees them.
\<close>

record marks =
  selectedIds :: "elemId set"
  focussedIds :: "elemId set"

fun applyFlag :: "bool option \<Rightarrow> elemId \<Rightarrow> elemId set \<Rightarrow> elemId set" where
  "applyFlag None i A = A"
| "applyFlag (Some True) i A = insert i A"
| "applyFlag (Some False) i A = A - {i}"

fun mark :: "marks \<Rightarrow> effect \<Rightarrow> marks" where
  "mark m (Fire name (CellChanged i p)) =
     \<lparr>selectedIds = applyFlag (selected p) i (selectedIds m),
      focussedIds = applyFlag (focussed p) i (focussedIds m)\<rparr>"
| "mark m (Fire name (Patch p)) = m"
| "mark m (Select i) = m"
| "mark m Deselect = m"

definition noMarks :: marks where
  "noMarks = \<lparr>selectedIds = {}, focussedIds = {}\<rparr>"

definition marksAfter :: "effect list \<Rightarrow> marks" where
  "marksAfter t = foldl mark noMarks t"

text \<open>
  At most one identifier is marked, selected or focussed. \<open>marksWithin\<close> ties the marks to
  the controller state: nothing but \<open>lastSelection\<close> is marked. \<open>allAlong\<close> states a
  property of the marks before and after every effect of a trace.
\<close>

definition atMostOneMarked :: "marks \<Rightarrow> bool" where
  "atMostOneMarked m = (\<exists>i. selectedIds m \<union> focussedIds m \<subseteq> {i})"

definition marksWithin :: "cellSelection \<Rightarrow> marks \<Rightarrow> bool" where
  "marksWithin s m = (selectedIds m \<union> focussedIds m \<subseteq> {lastSelection s})"

fun allAlong :: "(marks \<Rightarrow> bool) \<Rightarrow> marks \<Rightarrow> effect list \<Rightarrow> bool" where
  "allAlong P m [] = P m"
| "allAlong P m (e # es) = (P m \<and> allAlong P (mark m e) es)"

text \<open>
  The three things one run of a handler can be: nothing, one \<open>realSelect\<close>, or one
  \<open>unfocus\<close>.
\<close>

definition basic :: "cellSelection \<Rightarrow> cellSelection \<times> effect list \<Rightarrow> bool" where
  "basic s r = (r = (s, []) \<or> (\<exists>i. r = realSelect i s) \<or> (\<exists>el. r = unfocus el s))"

declare digits.simps [simp del]

section \<open>Lemmas\<close>

subsection \<open>split, digits and parseInt\<close>

















subsection \<open>Queries and coordinates\<close>



text \<open>
  The silent paths of \<open>selectCell\<close>: nothing selected, a selected element without
  coordinates, no element at the target coordinates, and a target without identifier. Each
  returns with the state as it was and no effect.
\<close>

lemma selectCell_nothing_selected:
  "\<not> truthy (lastSelection s) \<Longrightarrow> selectCell direction d s = Inr (s, [])"
  by (simp add: selectCell_def)

lemma selectCell_no_coordinates:
  assumes "truthy (lastSelection s)" "direction = ''above'' \<or> direction = ''below''"
      and "getCoordinates (getElement d (lastSelection s) None) = Inr None"
  shows "selectCell direction d s = Inr (s, [])"
  using assms by (auto simp add: selectCell_def Let_def)

lemma selectCell_no_target:
  assumes "truthy (lastSelection s)" "direction = ''above'' \<or> direction = ''below''"
      and "getCoordinates (getElement d (lastSelection s) None) = Inr (Some co)"
      and "getElementByCoords d
             (addNum (parseInt (row co)) (if direction = ''above'' then - 1 else 1))
             (col co) (Some (container d)) = None"
  shows "selectCell direction d s = Inr (s, [])"
  using assms by (auto simp add: selectCell_def Let_def)

subsection \<open>The first match of a list\<close>



subsection \<open>The listener of table.destroy\<close>

text \<open>
  Whatever the bindings are, the listener removes the click listener, then throws at the
  first \<open>delegate.unbind\<close>: the string \<open>'focusin'\<close> stands where the function is
  expected. The delegated listeners stay.
\<close>

lemma onTableDestroy_throws:
  "onTableDestroy s =
     (s\<lparr>bindings := filter (\<lambda>l. l \<noteq> Bound ''click'' HClick) (bindings s)\<rparr>, Some TypeError)"
  by (simp add: onTableDestroy_def event_unbind_def delegate_unbind_def)

subsection \<open>Every handler is a \<open>realSelect\<close>, an \<open>unfocus\<close> or nothing\<close>

lemma click_basic: "basic s (click path s)"
  by (simp add: basic_def click_def Let_def) blast

lemma deliver_basic: "basic s (deliver l type path s)"
proof (cases l)
  case (Bound t h)
  then show ?thesis using click_basic [of s path] by (cases h) (simp add: basic_def)
next
  case (Delegated sel t h)
  then show ?thesis
    by (cases h) (auto simp add: basic_def focus_def split: option.splits)
qed

lemma selectCell_basic: "selectCell direction d s = Inr r \<Longrightarrow> basic s r"
  by (auto simp add: selectCell_def basic_def Let_def split: if_splits sum.splits option.splits)

lemma onSelectionChanged_basic: "basic s (onSelectionChanged sel s)"
  by (auto simp add: onSelectionChanged_def basic_def split: option.splits)

subsection \<open>Marks along a trace\<close>

lemma allAlong_append:
  "allAlong P m (t1 @ t2) = (allAlong P m t1 \<and> allAlong P (foldl mark m t1) t2)"
  by (induction t1 arbitrary: m) (auto, (cases t2; simp)+)

lemma allAlong_take: "allAlong P m t \<Longrightarrow> P (foldl mark m (take n t))"
proof (induction t arbitrary: m n)
  case Nil
  then show ?case by simp
next
  case (Cons e es)
  then show ?case by (cases n) simp_all
qed

lemma marksWithin_atMostOne: "marksWithin s m \<Longrightarrow> atMostOneMarked m"
  by (auto simp add: marksWithin_def atMostOneMarked_def)

lemma realSelect_marks:
  assumes "marksWithin s m"
  shows "allAlong atMostOneMarked m (snd (realSelect i s))
       \<and> marksWithin (fst (realSelect i s)) (foldl mark m (snd (realSelect i s)))"
  using assms
  by (auto simp add: realSelect_def emit_def marksWithin_def atMostOneMarked_def Let_def
      selectPatch_def deselectPatch_def)

lemma unfocus_marks:
  assumes "marksWithin s m"
  shows "allAlong atMostOneMarked m (snd (unfocus el s))
       \<and> marksWithin (fst (unfocus el s)) (foldl mark m (snd (unfocus el s)))"
  using assms
  by (auto simp add: unfocus_def emit_def marksWithin_def atMostOneMarked_def unfocusPatch_def)

lemma basic_marks:
  assumes "basic s r" "marksWithin s m"
  shows "allAlong atMostOneMarked m (snd r) \<and> marksWithin (fst r) (foldl mark m (snd r))"
  using assms realSelect_marks [OF assms(2)] unfocus_marks [OF assms(2)]
    marksWithin_atMostOne [OF assms(2)]
  by (auto simp add: basic_def)

lemma deliverAll_marks:
  assumes "marksWithin s m"
  shows "allAlong atMostOneMarked m (snd (deliverAll ls type path s))
       \<and> marksWithin (fst (deliverAll ls type path s))
           (foldl mark m (snd (deliverAll ls type path s)))"
  using assms
proof (induction ls arbitrary: s m)
  case Nil
  then show ?case by (simp add: marksWithin_atMostOne)
next
  case (Cons l ls)
  obtain s1 t1 where d: "deliver l type path s = (s1, t1)"
    by (cases "deliver l type path s")
  obtain s2 t2 where r: "deliverAll ls type path s1 = (s2, t2)"
    by (cases "deliverAll ls type path s1")
  have "basic s (s1, t1)" using deliver_basic [of s l type path] d by simp
  from basic_marks [OF this Cons.prems]
  have 1: "allAlong atMostOneMarked m t1" and 2: "marksWithin s1 (foldl mark m t1)"
    by simp_all
  from Cons.IH [OF 2] r
  have "allAlong atMostOneMarked (foldl mark m t1) t2"
    and "marksWithin s2 (foldl mark (foldl mark m t1) t2)"
    by simp_all
  with 1 d r show ?case by (simp add: allAlong_append)
qed

lemma step_marks:
  assumes "marksWithin s m"
  shows "allAlong atMostOneMarked m (snd (step c s))
       \<and> marksWithin (fst (step c s)) (foldl mark m (snd (step c s)))"
proof (cases c)
  case (DomEvent type path)
  then show ?thesis using deliverAll_marks [OF assms] by (simp add: dispatch_def)
next
  case (SelectionChanged sel)
  then show ?thesis using basic_marks [OF onSelectionChanged_basic assms] by simp
next
  case TableDestroy
  then show ?thesis
    using assms marksWithin_atMostOne [OF assms]
    by (simp add: marksWithin_def onTableDestroy_throws)
next
  case (SelectCell direction d)
  show ?thesis
  proof (cases "selectCell direction d s")
    case (Inl e)
    with SelectCell show ?thesis using assms marksWithin_atMostOne [OF assms] by simp
  next
    case (Inr r)
    with SelectCell show ?thesis using basic_marks [OF selectCell_basic [OF Inr] assms] by simp
  qed
qed

lemma run_marks:
  assumes "marksWithin s m"
  shows "allAlong atMostOneMarked m (snd (run cs s))"
  using assms
proof (induction cs arbitrary: s m)
  case Nil
  then show ?case by (simp add: marksWithin_atMostOne)
next
  case (Cons c cs)
  obtain s1 t1 where d: "step c s = (s1, t1)" by (cases "step c s")
  obtain s2 t2 where r: "run cs s1 = (s2, t2)" by (cases "run cs s1")
  from step_marks [OF Cons.prems, of c] d
  have 1: "allAlong atMostOneMarked m t1" and 2: "marksWithin s1 (foldl mark m t1)"
    by simp_all
  from Cons.IH [OF 2] r have "allAlong atMostOneMarked (foldl mark m t1) t2" by simp
  with 1 d r show ?case by (simp add: allAlong_append)
qed

section \<open>The claims\<close>

subsection \<open>realSelect called twice\<close>

text \<open>
  C1, as the code has it. A second call of \<open>realSelect\<close> with the same identifier leaves
  the state, and so \<open>lastSelection\<close>, as the first call left it, and fires no
  deselect-patch. The guard of the source covers the deselect-patch only: for a non-empty
  identifier the second call fires the select-patch again and calls
  \<open>selection.select\<close> again; for an empty one it only calls \<open>selection.deselect\<close>.
\<close>

theorem realSelect_twice:
  "fst (realSelect x (fst (realSelect x s))) = fst (realSelect x s)
   \<and> lastSelection (fst (realSelect x (fst (realSelect x s)))) = x
   \<and> snd (realSelect x (fst (realSelect x s))) =
       (if truthy x
        then [Fire (''selection.'' @ toStr x @ ''.changed'')
                (Patch \<lparr>selected = Some True, focussed = Some True\<rparr>),
              Fire ''cellSelection.changed''
                (CellChanged x \<lparr>selected = Some True, focussed = Some True\<rparr>),
              Select x]
        else [Deselect])"
  by (simp add: realSelect_def emit_def selectPatch_def Let_def)

theorem realSelect_twice_witness:
  "snd (realSelect (Str ''a'') (fst (realSelect (Str ''a'') CellSelection))) =
     [Fire ''selection.a.changed'' (Patch \<lparr>selected = Some True, focussed = Some True\<rparr>),
      Fire ''cellSelection.changed''
        (CellChanged (Str ''a'') \<lparr>selected = Some True, focussed = Some True\<rparr>),
      Select (Str ''a'')]
   \<and> snd (realSelect Null (fst (realSelect Null CellSelection))) = [Deselect]"
  using realSelect_twice [of "Str ''a''" CellSelection] realSelect_twice [of Null CellSelection]
  by simp

text \<open>
  With one select-patch in total the property fails: selecting \<open>"a"\<close> twice on a new
  controller fires the select-patch of \<open>"a"\<close> twice.
\<close>

theorem realSelect_twice_counterexample:
  "count_list
     (snd (realSelect (Str ''a'') CellSelection) @
      snd (realSelect (Str ''a'') (fst (realSelect (Str ''a'') CellSelection))))
     (Fire ''cellSelection.changed''
        (CellChanged (Str ''a'') \<lparr>selected = Some True, focussed = Some True\<rparr>)) = 2"
  by (simp add: realSelect_def emit_def CellSelection_def selectPatch_def deselectPatch_def
      Let_def)

subsection \<open>The direction error\<close>

text \<open>
  C2, as the code has it. \<open>selectCell\<close> throws its error exactly when a cell is selected
  and the direction is neither \<open>"above"\<close> nor \<open>"below"\<close>; the check for a selection
  comes first, so with nothing selected every direction returns silently. The message is
  the one of the source, and no helper throws an \<open>Error\<close> of its own.
\<close>

theorem selectCell_direction_error:
  "(selectCell direction d s = Inl (Error m)) =
     (truthy (lastSelection s) \<and> direction \<noteq> ''above'' \<and> direction \<noteq> ''below''
      \<and> m = ''direction must be any of { above, below }'')
   \<and> getCoordinates el \<noteq> Inl (Error m)"
  by (auto simp add: selectCell_def getCoordinates_def Let_def split: option.splits sum.splits)

theorem selectCell_direction_error_witness:
  "selectCell ''left'' \<lparr>document = [], container = []\<rparr>
     (fst (realSelect (Str ''a'') CellSelection))
   = Inl (Error ''direction must be any of { above, below }'')"
  using selectCell_direction_error
    [of "''left''" "\<lparr>document = [], container = []\<rparr>" "fst (realSelect (Str ''a'') CellSelection)"
        "''direction must be any of { above, below }''"]
  by (simp add: realSelect_def Let_def)

text \<open>
  For every direction the property fails: on a new controller \<open>selectCell("left")\<close>
  returns without an error.
\<close>

theorem selectCell_left_counterexample:
  "''left'' \<noteq> ''above'' \<and> ''left'' \<noteq> ''below''
   \<and> selectCell ''left'' \<lparr>document = [], container = []\<rparr> CellSelection
       = Inr (CellSelection, [])"
  by (simp add: selectCell_def CellSelection_def)

subsection \<open>A selected element that is gone\<close>

text \<open>
  C3. The claim lets \<open>selectCell\<close> throw for an invalid direction only. The source guards
  \<open>coords\<close> and \<open>nextEl\<close> against \<open>null\<close> but not \<open>selectionEl\<close>: after a click on
  the element \<open>"a"\<close>, with that element gone from the document, \<open>selectCell("above")\<close>
  raises a TypeError. The silent paths themselves are the lemmas
  \<open>selectCell_nothing_selected\<close>, \<open>selectCell_no_coordinates\<close> and
  \<open>selectCell_no_target\<close>.
\<close>

theorem selectCell_above_after_removal:
  "selectCell ''above'' \<lparr>document = [], container = []\<rparr>
     (fst (click [\<lparr>attrs = [(''data-element-id'', ''a'')], classes = []\<rparr>] CellSelection))
   = Inl TypeError"
  by (simp add: click_def closest_def getAttribute_def ELEMENT_SELECTOR_def getElementId_def
      realSelect_def selectCell_def getElement_def query_def getCoordinates_def Let_def)

subsection \<open>The row above and the row below\<close>



subsection \<open>Deselect before select\<close>

text \<open>
  C5. When \<open>realSelect\<close> is called with an identifier \<open>b\<close> other than \<open>lastSelection\<close>,
  its trace begins with the deselect-patch \<open>{selected: false, focussed: false}\<close> of the
  old \<open>lastSelection\<close>, and the select-patch of \<open>b\<close> comes after it, when \<open>b\<close> is
  non-empty; an empty \<open>b\<close> gets the deselect-patch and \<open>selection.deselect\<close> only.
  And after every prefix of the trace of every sequence of calls on a new controller, at
  most one identifier is marked selected or focussed.
\<close>

theorem deselect_before_select:
  "(lastSelection s \<noteq> b \<longrightarrow>
      snd (realSelect b s) =
        emit (lastSelection s) \<lparr>selected = Some False, focussed = Some False\<rparr> @
        (if truthy b then emit b \<lparr>selected = Some True, focussed = Some True\<rparr> @ [Select b]
         else [Deselect]))
   \<and> (\<forall>cs n. atMostOneMarked (marksAfter (take n (snd (run cs CellSelection)))))"
proof -
  have "marksWithin CellSelection noMarks"
    by (simp add: marksWithin_def noMarks_def)
  then have "allAlong atMostOneMarked noMarks (snd (run cs CellSelection))" for cs
    by (rule run_marks)
  then have "atMostOneMarked (marksAfter (take n (snd (run cs CellSelection))))" for cs n
    unfolding marksAfter_def by (rule allAlong_take)
  then show ?thesis
    by (simp add: realSelect_def Let_def selectPatch_def deselectPatch_def)
qed

theorem deselect_before_select_witness:
  "lastSelection (fst (realSelect (Str ''a'') CellSelection)) \<noteq> Null
   \<and> snd (realSelect Null (fst (realSelect (Str ''a'') CellSelection))) =
       [Fire ''selection.a.changed'' (Patch \<lparr>selected = Some False, focussed = Some False\<rparr>),
        Fire ''cellSelection.changed''
          (CellChanged (Str ''a'') \<lparr>selected = Some False, focussed = Some False\<rparr>),
        Deselect]
   \<and> atMostOneMarked (marksAfter (take 4 (snd (run
        [SelectionChanged (Some (Str ''a'')), SelectionChanged (Some (Str ''b''))]
        CellSelection))))"
proof -
  note t = deselect_before_select [of "fst (realSelect (Str ''a'') CellSelection)" Null]
  have a: "lastSelection (fst (realSelect (Str ''a'') CellSelection)) \<noteq> Null"
    by (simp add: realSelect_def Let_def)
  with t have b: "snd (realSelect Null (fst (realSelect (Str ''a'') CellSelection))) =
       [Fire ''selection.a.changed'' (Patch \<lparr>selected = Some False, focussed = Some False\<rparr>),
        Fire ''cellSelection.changed''
          (CellChanged (Str ''a'') \<lparr>selected = Some False, focussed = Some False\<rparr>),
        Deselect]"
    by (simp add: realSelect_def emit_def Let_def)
  from t have c: "atMostOneMarked (marksAfter (take 4 (snd (run
        [SelectionChanged (Some (Str ''a'')), SelectionChanged (Some (Str ''b''))]
        CellSelection))))"
    by blast
  from a b c show ?thesis by blast
qed

subsection \<open>emit\<close>

text \<open>
  C6. Every call of \<open>emit\<close> fires exactly two bus events, in this order: the per-element
  event named \<open>'selection.' + elementId + '.changed'\<close> carrying the patch, then the global
  \<open>cellSelection.changed\<close> carrying the identifier and the patch. For a falsy identifier
  the per-element event is fired all the same, under the names
  \<open>selection.null.changed\<close>, \<open>selection.undefined.changed\<close> and \<open>selection..changed\<close>.
\<close>

theorem emit_fires_two_events:
  "emit elementId p =
     [Fire (''selection.'' @ toStr elementId @ ''.changed'') (Patch p),
      Fire ''cellSelection.changed'' (CellChanged elementId p)]
   \<and> length (emit elementId p) = 2
   \<and> emit Null p ! 0 = Fire ''selection.null.changed'' (Patch p)
   \<and> emit Undefined p ! 0 = Fire ''selection.undefined.changed'' (Patch p)
   \<and> emit (Str []) p ! 0 = Fire ''selection..changed'' (Patch p)"
  by (simp add: emit_def)

subsection \<open>isCellSelected\<close>

text \<open>
  C7, as the code has it. \<open>isCellSelected\<close> is \<open>!!lastSelection\<close>: it is true exactly
  when \<open>lastSelection\<close> is a non-empty string. It is false on a new controller, and after
  \<open>realSelect(x)\<close> it is true when \<open>x\<close> is non-empty and false when \<open>x\<close> is empty
  (\<open>null\<close>, \<open>undefined\<close> or the empty string).
\<close>

theorem isCellSelected_truthy:
  "isCellSelected s = (\<exists>v. lastSelection s = Str v \<and> v \<noteq> [])
   \<and> \<not> isCellSelected CellSelection
   \<and> isCellSelected (fst (realSelect x s)) = truthy x"
  by (cases "lastSelection s")
    (simp_all add: isCellSelected_def realSelect_def CellSelection_def Let_def)

theorem isCellSelected_truthy_witness:
  "isCellSelected (fst (realSelect (Str ''a'') CellSelection))
   \<and> \<not> isCellSelected (fst (realSelect Null (fst (realSelect (Str ''a'') CellSelection))))
   \<and> \<not> isCellSelected CellSelection"
  using isCellSelected_truthy [of CellSelection "Str ''a''"]
    isCellSelected_truthy [of "fst (realSelect (Str ''a'') CellSelection)" Null]
  by simp

text \<open>
  With "non-null" the equivalence fails: a click on an element whose identifier attribute
  is the empty string leaves \<open>lastSelection\<close> at \<open>""\<close>, which is not \<open>null\<close>, and
  \<open>isCellSelected\<close> is false.
\<close>

theorem isCellSelected_counterexample:
  "lastSelection
     (fst (click [\<lparr>attrs = [(''data-element-id'', [])], classes = []\<rparr>] CellSelection)) \<noteq> Null
   \<and> \<not> isCellSelected
         (fst (click [\<lparr>attrs = [(''data-element-id'', [])], classes = []\<rparr>] CellSelection))"
  by (simp add: click_def closest_def getAttribute_def ELEMENT_SELECTOR_def getElementId_def
      realSelect_def isCellSelected_def Let_def)

subsection \<open>After table.destroy\<close>

text \<open>
  C8. The claim has the click, focusin and focusout handlers unbound after
  \<open>table.destroy\<close>, so that no later click or focus interaction fires an event or
  changes the state. The source unbinds the click handler, then calls
  \<open>delegate.unbind(container, ELEMENT_SELECTOR, 'focusin', focus)\<close> with the arguments of
  \<open>delegate.bind\<close>, while the parameters of \<open>delegate.unbind\<close> are
  \<open>(el, type, fn, capture)\<close>: the call throws a TypeError and removes nothing. On a new
  controller, after \<open>table.destroy\<close>, the two delegated listeners are still bound: a
  click on the element \<open>"a"\<close> does nothing, but a focusin on it runs \<open>realSelect("a")\<close>,
  which fires four events, calls \<open>selection.select\<close> and sets \<open>lastSelection\<close>, and a
  focusout on it fires the two events of \<open>unfocus\<close>.
\<close>

theorem focus_handlers_survive_destroy:
  "onTableDestroy CellSelection =
     (\<lparr>lastSelection = Null,
       bindings = [Delegated (HasAttr ''data-element-id'') ''focusin'' HFocus,
                   Delegated (HasAttr ''data-element-id'') ''focusout'' HUnfocus]\<rparr>,
      Some TypeError)
   \<and> dispatch ''click'' [\<lparr>attrs = [(''data-element-id'', ''a'')], classes = []\<rparr>]
         (fst (onTableDestroy CellSelection))
       = (fst (onTableDestroy CellSelection), [])
   \<and> dispatch ''focusin'' [\<lparr>attrs = [(''data-element-id'', ''a'')], classes = []\<rparr>]
         (fst (onTableDestroy CellSelection))
       = ((fst (onTableDestroy CellSelection))\<lparr>lastSelection := Str ''a''\<rparr>,
          [Fire ''selection.null.changed''
             (Patch \<lparr>selected = Some False, focussed = Some False\<rparr>),
           Fire ''cellSelection.changed''
             (CellChanged Null \<lparr>selected = Some False, focussed = Some False\<rparr>),
           Fire ''selection.a.changed''
             (Patch \<lparr>selected = Some True, focussed = Some True\<rparr>),
           Fire ''cellSelection.changed''
             (CellChanged (Str ''a'') \<lparr>selected = Some True, focussed = Some True\<rparr>),
           Select (Str ''a'')])
   \<and> dispatch ''focusout'' [\<lparr>attrs = [(''data-element-id'', ''a'')], classes = []\<rparr>]
         (fst (onTableDestroy CellSelection))
       = (fst (onTableDestroy CellSelection),
          [Fire ''selection.a.changed'' (Patch \<lparr>selected = None, focussed = Some False\<rparr>),
           Fire ''cellSelection.changed''
             (CellChanged (Str ''a'') \<lparr>selected = None, focussed = Some False\<rparr>)])"
  by (simp add: onTableDestroy_def event_unbind_def delegate_unbind_def CellSelection_def
      event_bind_def delegate_bind_def ELEMENT_SELECTOR_def dispatch_def closest_def
      getAttribute_def focus_def unfocus_def getElementId_def realSelect_def emit_def
      selectPatch_def deselectPatch_def unfocusPatch_def Let_def)

subsection \<open>unfocus\<close>

text \<open>
  C9. \<open>unfocus\<close> returns the state as it was, \<open>lastSelection\<close> included, and its trace
  is the two events of one \<open>emit\<close> with the patch \<open>{focussed: false}\<close> for the
  identifier of the delegate target: no patch with a \<open>selected\<close> key, no call of the
  selection service, nothing of \<open>realSelect\<close>.
\<close>

theorem unfocus_only_unfocuses:
  "unfocus el s =
     (s, [Fire (''selection.'' @ toStr (getElementId el) @ ''.changed'')
            (Patch \<lparr>selected = None, focussed = Some False\<rparr>),
          Fire ''cellSelection.changed''
            (CellChanged (getElementId el) \<lparr>selected = None, focussed = Some False\<rparr>)])"
  by (simp add: unfocus_def emit_def unfocusPatch_def)

subsection \<open>selectCell with the selected element missing\<close>

text \<open>
  C10. When \<open>lastSelection\<close> is a non-empty (plain) identifier and no element of the
  document carries it, \<open>getElement\<close> returns \<open>null\<close>, \<open>getCoordinates\<close> of that
  \<open>null\<close> raises a TypeError, and so does \<open>selectCell\<close> for \<open>"above"\<close> and for
  \<open>"below"\<close>. \<open>getElement\<close> is called without a container and searches the document:
  its result is the same whatever the container holds.
\<close>

theorem selectCell_selected_element_missing:
  assumes "lastSelection s = Str x" "x \<noteq> []" "plain x"
      and "\<forall>e \<in> set (document d). getAttribute e ''data-element-id'' \<noteq> Some x"
      and "direction = ''above'' \<or> direction = ''below''"
  shows "getElement d (lastSelection s) None = None
       \<and> getCoordinates (getElement d (lastSelection s) None) = Inl TypeError
       \<and> selectCell direction d s = Inl TypeError
       \<and> getElement (d\<lparr>container := els\<rparr>) (lastSelection s) None
           = getElement d (lastSelection s) None"
proof -
  have none: "getElement d (lastSelection s) None = None"
    using assms(1,4) by (simp add: getElement_def query_def find_None_iff)
  then have "getCoordinates (getElement d (lastSelection s) None) = Inl TypeError"
    by (simp add: getCoordinates_def)
  moreover from this have "selectCell direction d s = Inl TypeError"
    using assms(1,2,5) by (auto simp add: selectCell_def Let_def)
  moreover have "getElement (d\<lparr>container := els\<rparr>) (lastSelection s) None
                   = getElement d (lastSelection s) None"
    by (simp add: getElement_def query_def)
  ultimately show ?thesis using none by simp
qed

theorem selectCell_selected_element_missing_witness:
  "selectCell ''below''
     \<lparr>document =
        [\<lparr>attrs = [(''data-element-id'', ''b''), (''data-coords'', ''0:1'')], classes = []\<rparr>],
      container =
        [\<lparr>attrs = [(''data-element-id'', ''b''), (''data-coords'', ''0:1'')], classes = []\<rparr>]\<rparr>
     (fst (realSelect (Str ''a'') CellSelection)) = Inl TypeError"
  using selectCell_selected_element_missing
    [of "fst (realSelect (Str ''a'') CellSelection)" "''a''"
        "\<lparr>document =
            [\<lparr>attrs = [(''data-element-id'', ''b''), (''data-coords'', ''0:1'')], classes = []\<rparr>],
          container =
            [\<lparr>attrs = [(''data-element-id'', ''b''), (''data-coords'', ''0:1'')], classes = []\<rparr>]\<rparr>"
        "''below''"]
  by (simp add: plain_def getAttribute_def realSelect_def Let_def)

end
